theory Spec2Isabelle
  imports Main "HOL-Library.Word" "HOL-Library.AList"
begin

section \<open>FalconPass: the client-side cryptography module and the vault service\<close>

text \<open>
  A shallow embedding of \<^verbatim>\<open>frontend/src/crypto/index.ts\<close> and of the vault service
  (\<^verbatim>\<open>services/vault.ts\<close>). The functions of libsodium, argon2-browser and the
  JavaScript runtime that the code calls are not part of the repository: they are
  the fields of the record \<open>platform\<close>, and every function of the repository takes
  the platform as its first argument.
\<close>

subsection \<open>Values of the JavaScript runtime\<close>

type_synonym byte = "8 word"

text \<open>A \<^verbatim>\<open>Uint8Array\<close> is the list of its bytes.\<close>

type_synonym bytes = "byte list"

text \<open>
  A thrown value: the name of its class and its message.
  \<^verbatim>\<open>new Error(m)\<close> is \<open>Thrown ''Error'' m\<close>.
\<close>

datatype js_error = Thrown (err_class: string) (err_message: string)

abbreviation Error :: "string \<Rightarrow> js_error" where
  "Error m \<equiv> Thrown ''Error'' m"

abbreviation TypeError :: "string \<Rightarrow> js_error" where
  "TypeError m \<equiv> Thrown ''TypeError'' m"

text \<open>
  A JavaScript value as \<^verbatim>\<open>JSON.parse\<close> and object literals build it. An object is
  the association list of its own properties; only the value a name is bound to
  matters, never the position of the binding.
\<close>

datatype jsval =
    Undefined
  | Null
  | Bool bool
  | Num int
  | Str string
  | Arr "jsval list"
  | Obj "(string \<times> jsval) list"

subsection \<open>The platform: libsodium, argon2-browser, JSON\<close>

datatype argon_type = Argon2d | Argon2i | Argon2id

text \<open>
  The argument object of \<^verbatim>\<open>argon2.hash\<close>; the field \<open>arg_time\<close> is its
  \<^verbatim>\<open>time\<close>, and so on.
\<close>

record argon2_params =
  arg_pass :: string
  arg_salt :: bytes
  arg_type :: argon_type
  arg_time :: nat
  arg_mem :: nat
  arg_hashLen :: nat

record platform =
  from_string :: "string \<Rightarrow> bytes"
  to_string :: "bytes \<Rightarrow> js_error + string"
  crypto_secretbox_easy :: "bytes \<Rightarrow> bytes \<Rightarrow> bytes \<Rightarrow> js_error + bytes"
  crypto_secretbox_open_easy :: "bytes \<Rightarrow> bytes \<Rightarrow> bytes \<Rightarrow> js_error + bytes"
  to_base64 :: "bytes \<Rightarrow> string"
  from_base64 :: "string \<Rightarrow> js_error + bytes"
  argon2_hash :: "argon2_params \<Rightarrow> js_error + bytes"
  JSON_parse :: "string \<Rightarrow> js_error + jsval"

text \<open>
  The random source of libsodium is the sequence of the bytes it will deliver,
  \<open>g 0\<close>, \<open>g 1\<close>, ...; \<^verbatim>\<open>sodium.randombytes_buf(n)\<close> takes the next \<open>n\<close> of
  them and leaves the rest.
\<close>

type_synonym rng = "nat \<Rightarrow> byte"

definition randombytes_buf :: "nat \<Rightarrow> rng \<Rightarrow> bytes \<times> rng" where
  "randombytes_buf n g = (map g [0..<n], \<lambda>i. g (n + i))"

text \<open>
  The clock is the sequence of the readings it will give;
  \<^verbatim>\<open>new Date().toISOString()\<close> takes the next one.
\<close>

type_synonym clock = "nat \<Rightarrow> string"

definition now_ISOString :: "clock \<Rightarrow> string \<times> clock" where
  "now_ISOString clk = (clk 0, \<lambda>i. clk (Suc i))"

subsection \<open>Typed arrays\<close>

text \<open>
  \<^verbatim>\<open>target.set(source, offset)\<close> copies \<open>source\<close> into \<open>target\<close> from index
  \<open>offset\<close> on, and throws a RangeError when the source does not fit.
\<close>

definition typed_array_set :: "bytes \<Rightarrow> bytes \<Rightarrow> nat \<Rightarrow> js_error + bytes" where
  "typed_array_set target source offset =
     (if length target < offset + length source
      then Inl (Thrown ''RangeError'' ''offset is out of bounds'')
      else Inr (take offset target @ source @ drop (offset + length source) target))"

text \<open>
  \<^verbatim>\<open>a.slice(start, end)\<close> for indices that are not negative: both are clamped to
  the length of the array.
\<close>

definition slice :: "bytes \<Rightarrow> nat \<Rightarrow> nat \<Rightarrow> bytes" where
  "slice a start end = drop start (take end a)"

text \<open>\<^verbatim>\<open>a.slice(start)\<close>: to the end of the array.\<close>

definition slice_from :: "bytes \<Rightarrow> nat \<Rightarrow> bytes" where
  "slice_from a start = drop start a"

subsection \<open>crypto/index.ts\<close>

definition SALT_BYTES :: nat where "SALT_BYTES = 16"
definition NONCE_BYTES :: nat where "NONCE_BYTES = 24"
definition KEY_BYTES :: nat where "KEY_BYTES = 32"

record derived_key =
  dk_key :: bytes
  dk_salt :: bytes

text \<open>
  \<^verbatim>\<open>deriveKeyFromPassword(password, salt?)\<close>. An omitted salt is \<open>None\<close>; a
  \<^verbatim>\<open>Uint8Array\<close> is an object, so every salt that is passed is truthy, the empty
  one too. The promise of \<^verbatim>\<open>argon2.hash\<close> is awaited: a rejection is the error.
\<close>

definition deriveKeyFromPassword ::
  "platform \<Rightarrow> string \<Rightarrow> bytes option \<Rightarrow> rng \<Rightarrow> (js_error + derived_key) \<times> rng" where
  "deriveKeyFromPassword lib password salt_arg g =
     (let (salt, g') = (case salt_arg of
                          None \<Rightarrow> randombytes_buf SALT_BYTES g
                        | Some s \<Rightarrow> (s, g))
      in (case argon2_hash lib \<lparr>arg_pass = password, arg_salt = salt, arg_type = Argon2id,
                                arg_time = 3, arg_mem = 65536, arg_hashLen = KEY_BYTES\<rparr> of
            Inl e \<Rightarrow> Inl e
          | Inr hash \<Rightarrow> Inr \<lparr>dk_key = hash, dk_salt = salt\<rparr>,
          g'))"

record sealed =
  sealed_ciphertext :: bytes
  sealed_nonce :: bytes

text \<open>\<^verbatim>\<open>encryptData(data, key)\<close>; an error of the library is not caught.\<close>

definition encryptData ::
  "platform \<Rightarrow> string \<Rightarrow> bytes \<Rightarrow> rng \<Rightarrow> (js_error + sealed) \<times> rng" where
  "encryptData lib data key g =
     (let (nonce, g') = randombytes_buf NONCE_BYTES g;
          dataBytes = from_string lib data
      in (case crypto_secretbox_easy lib dataBytes nonce key of
            Inl e \<Rightarrow> Inl e
          | Inr ciphertext \<Rightarrow> Inr \<lparr>sealed_ciphertext = ciphertext, sealed_nonce = nonce\<rparr>,
          g'))"

definition decryption_failed :: js_error where
  "decryption_failed = Error ''Decryption failed. Invalid key or corrupted data.''"

text \<open>
  \<^verbatim>\<open>decryptData(ciphertext, nonce, key)\<close>: whatever is thrown inside the
  \<^verbatim>\<open>try\<close> block is replaced by one fixed error.
\<close>

definition decryptData :: "platform \<Rightarrow> bytes \<Rightarrow> bytes \<Rightarrow> bytes \<Rightarrow> js_error + string" where
  "decryptData lib ciphertext nonce key =
     (case crypto_secretbox_open_easy lib ciphertext nonce key of
        Inl e \<Rightarrow> Inl decryption_failed
      | Inr decrypted \<Rightarrow>
          (case to_string lib decrypted of
             Inl e \<Rightarrow> Inl decryption_failed
           | Inr s \<Rightarrow> Inr s))"

text \<open>
  The options of \<^verbatim>\<open>generatePassword\<close>. A flag that is absent reads as
  \<^verbatim>\<open>undefined\<close>, which is falsy as \<^verbatim>\<open>false\<close> is: both are \<open>False\<close>.
\<close>

record pw_options =
  uppercase :: bool
  lowercase :: bool
  numbers :: bool
  symbols :: bool

definition default_pw_options :: pw_options where
  "default_pw_options = \<lparr>uppercase = True, lowercase = True, numbers = True, symbols = True\<rparr>"

definition uppercaseChars :: string where
  "uppercaseChars = ''ABCDEFGHIJKLMNOPQRSTUVWXYZ''"

definition lowercaseChars :: string where
  "lowercaseChars = ''abcdefghijklmnopqrstuvwxyz''"

definition numberChars :: string where
  "numberChars = ''0123456789''"

definition symbolChars :: string where
  "symbolChars = ''!@#$%^&*()_+-=[]{}|;:,.<>?''"

text \<open>The character set that the four \<^verbatim>\<open>if\<close> statements and the fallback build.\<close>

definition build_charset :: "pw_options \<Rightarrow> string" where
  "build_charset options =
     (let charset = '''';
          charset = (if uppercase options then charset @ uppercaseChars else charset);
          charset = (if lowercase options then charset @ lowercaseChars else charset);
          charset = (if numbers options then charset @ numberChars else charset);
          charset = (if symbols options then charset @ symbolChars else charset)
      in if charset = '''' then uppercaseChars @ lowercaseChars @ numberChars else charset)"

text \<open>
  \<^verbatim>\<open>charset[randomBytes[i] % charset.length]\<close> as the string that \<^verbatim>\<open>+=\<close> appends.
  Out of range JavaScript reads \<^verbatim>\<open>undefined\<close>, and \<^verbatim>\<open>password += undefined\<close>
  appends the text \<^verbatim>\<open>undefined\<close>.
\<close>

definition pick_char :: "string \<Rightarrow> bytes \<Rightarrow> nat \<Rightarrow> string" where
  "pick_char charset randomBytes i =
     (if i < length randomBytes \<and> charset \<noteq> ''''
      then [charset ! (unat (randomBytes ! i) mod length charset)]
      else ''undefined'')"

text \<open>The \<^verbatim>\<open>for\<close> loop of \<^verbatim>\<open>generatePassword\<close>, from index \<open>i\<close> on.\<close>

function password_loop :: "string \<Rightarrow> bytes \<Rightarrow> nat \<Rightarrow> nat \<Rightarrow> string \<Rightarrow> string" where
  "password_loop charset randomBytes len i password =
     (if i < len
      then password_loop charset randomBytes len (Suc i)
             (password @ pick_char charset randomBytes i)
      else password)"
  by pat_completeness auto
termination
  by (relation "measure (\<lambda>(charset, randomBytes, len, i, password). len - i)") auto

declare password_loop.simps [simp del]

text \<open>
  \<^verbatim>\<open>generatePassword(length = 16, options = {all true})\<close>. The length is a count of
  characters, a natural number; an omitted argument is \<open>None\<close>.
\<close>

definition generatePassword :: "nat option \<Rightarrow> pw_options option \<Rightarrow> rng \<Rightarrow> string \<times> rng" where
  "generatePassword length_arg options_arg g =
     (let len = (case length_arg of None \<Rightarrow> 16 | Some n \<Rightarrow> n);
          options = (case options_arg of None \<Rightarrow> default_pw_options | Some opts \<Rightarrow> opts);
          charset = build_charset options;
          (randomBytes, g') = randombytes_buf (len * 2) g
      in (password_loop charset randomBytes len 0 '''', g'))"

text \<open>
  \<^verbatim>\<open>serializeEncryptedData(ciphertext, nonce, salt)\<close>: a zero-filled array of
  the total length, three \<^verbatim>\<open>set\<close> calls, then Base64.
\<close>

definition serializeEncryptedData :: "platform \<Rightarrow> bytes \<Rightarrow> bytes \<Rightarrow> bytes \<Rightarrow> js_error + string" where
  "serializeEncryptedData lib ciphertext nonce salt =
     (let combined = replicate (length salt + length nonce + length ciphertext) 0
      in case typed_array_set combined salt 0 of
           Inl e \<Rightarrow> Inl e
         | Inr combined \<Rightarrow>
             (case typed_array_set combined nonce (length salt) of
                Inl e \<Rightarrow> Inl e
              | Inr combined \<Rightarrow>
                  (case typed_array_set combined ciphertext (length salt + length nonce) of
                     Inl e \<Rightarrow> Inl e
                   | Inr combined \<Rightarrow> Inr (to_base64 lib combined))))"

record envelope =
  env_ciphertext :: bytes
  env_nonce :: bytes
  env_salt :: bytes

text \<open>\<^verbatim>\<open>deserializeEncryptedData(serialized)\<close>: decode, then three slices.\<close>

definition deserializeEncryptedData :: "platform \<Rightarrow> string \<Rightarrow> js_error + envelope" where
  "deserializeEncryptedData lib serialized =
     (case from_base64 lib serialized of
        Inl e \<Rightarrow> Inl e
      | Inr combined \<Rightarrow>
          (let salt = slice combined 0 SALT_BYTES;
               nonce = slice combined SALT_BYTES (SALT_BYTES + NONCE_BYTES);
               ciphertext = slice_from combined (SALT_BYTES + NONCE_BYTES)
           in Inr \<lparr>env_ciphertext = ciphertext, env_nonce = nonce, env_salt = salt\<rparr>))"

subsection \<open>Objects of the JavaScript runtime\<close>

text \<open>
  \<^verbatim>\<open>v.name\<close>. Reading a property of \<^verbatim>\<open>null\<close> or \<^verbatim>\<open>undefined\<close> throws a TypeError;
  an object gives the value bound to the name, \<^verbatim>\<open>undefined\<close> when there is none.
  The service reads \<^verbatim>\<open>format\<close>, \<^verbatim>\<open>entries\<close>, \<^verbatim>\<open>id\<close>, \<^verbatim>\<open>encryptedData\<close>,
  \<^verbatim>\<open>createdAt\<close> and \<^verbatim>\<open>updatedAt\<close>: a number, a boolean, a string or an array has
  none of them, but for \<^verbatim>\<open>entries\<close> on an array, which the service never reads (it
  reads \<^verbatim>\<open>entries\<close> only from a value whose \<^verbatim>\<open>format\<close> is a string, an object).
\<close>

fun get_prop :: "jsval \<Rightarrow> string \<Rightarrow> js_error + jsval" where
  "get_prop Undefined name = Inl (TypeError ''Cannot read properties of undefined'')"
| "get_prop Null name = Inl (TypeError ''Cannot read properties of null'')"
| "get_prop (Obj props) name =
     Inr (case map_of props name of None \<Rightarrow> Undefined | Some v \<Rightarrow> v)"
| "get_prop v name = Inr Undefined"

text \<open>Truthiness, as \<^verbatim>\<open>||\<close> and \<^verbatim>\<open>!\<close> test it.\<close>

fun truthy :: "jsval \<Rightarrow> bool" where
  "truthy Undefined = False"
| "truthy Null = False"
| "truthy (Bool b) = b"
| "truthy (Num n) = (n \<noteq> 0)"
| "truthy (Str s) = (s \<noteq> [])"
| "truthy (Arr xs) = True"
| "truthy (Obj props) = True"

text \<open>The decimal digits of an array index, the name of the property it is.\<close>

function index_name :: "nat \<Rightarrow> string" where
  "index_name n =
     (if n < 10 then [char_of (48 + n)]
      else index_name (n div 10) @ [char_of (48 + n mod 10)])"
  by pat_completeness auto
termination
  by (relation "measure (\<lambda>n. n)") auto

declare index_name.simps [simp del]

text \<open>
  The own enumerable properties that the spread \<^verbatim>\<open>{...v}\<close> copies: those of an
  object, the elements of an array and the characters of a string under their
  indices, and nothing for the other values.
\<close>

fun own_props :: "jsval \<Rightarrow> (string \<times> jsval) list" where
  "own_props (Obj props) = props"
| "own_props (Arr xs) = zip (map index_name [0..<length xs]) xs"
| "own_props (Str s) = zip (map index_name [0..<length s]) (map (\<lambda>c. Str [c]) s)"
| "own_props v = []"

text \<open>A property written after others in an object literal binds its name anew.\<close>

definition set_prop :: "string \<Rightarrow> jsval \<Rightarrow> (string \<times> jsval) list \<Rightarrow> (string \<times> jsval) list" where
  "set_prop name v props = AList.update name v props"

text \<open>Sequencing of steps that may throw.\<close>

definition and_then :: "js_error + 'a \<Rightarrow> ('a \<Rightarrow> js_error + 'b) \<Rightarrow> js_error + 'b" where
  "and_then r f = (case r of Inl e \<Rightarrow> Inl e | Inr v \<Rightarrow> f v)"

text \<open>
  \<^verbatim>\<open>xs.map(f)\<close> for a callback that may throw: the first exception leaves the loop.
\<close>

fun map_throwing :: "('a \<Rightarrow> js_error + 'b) \<Rightarrow> 'a list \<Rightarrow> js_error + 'b list" where
  "map_throwing f [] = Inr []"
| "map_throwing f (x # xs) =
     (case f x of
        Inl e \<Rightarrow> Inl e
      | Inr y \<Rightarrow> (case map_throwing f xs of Inl e \<Rightarrow> Inl e | Inr ys \<Rightarrow> Inr (y # ys)))"

subsection \<open>The vault service\<close>

text \<open>
  \<^verbatim>\<open>deserializeEncryptedData\<close> on a value of the runtime: \<^verbatim>\<open>sodium.from_base64\<close>
  accepts a string and throws a TypeError on every other value of JSON.
\<close>

definition deserialize_value :: "platform \<Rightarrow> jsval \<Rightarrow> js_error + envelope" where
  "deserialize_value lib v =
     (case v of
        Str serialized \<Rightarrow> deserializeEncryptedData lib serialized
      | _ \<Rightarrow> Inl (TypeError ''unsupported input type for input''))"

text \<open>The \<^verbatim>\<open>try\<close> block of \<^verbatim>\<open>decryptVaultEntry\<close>.\<close>

definition decryptVaultEntry_try :: "platform \<Rightarrow> jsval \<Rightarrow> bytes \<Rightarrow> js_error + jsval" where
  "decryptVaultEntry_try lib encryptedEntry key =
     and_then (get_prop encryptedEntry ''encryptedData'') (\<lambda>encryptedData.
     and_then (deserialize_value lib encryptedData) (\<lambda>env.
     and_then (decryptData lib (env_ciphertext env) (env_nonce env) key) (\<lambda>decryptedJson.
     and_then (JSON_parse lib decryptedJson) (\<lambda>entry.
     and_then (get_prop encryptedEntry ''id'') (\<lambda>entry_id.
     and_then (get_prop encryptedEntry ''createdAt'') (\<lambda>createdAt.
     and_then (get_prop encryptedEntry ''updatedAt'') (\<lambda>updatedAt.
       Inr (Obj (set_prop ''updatedAt'' updatedAt
                (set_prop ''createdAt'' createdAt
                (set_prop ''id'' entry_id (own_props entry))))))))))))"

text \<open>\<^verbatim>\<open>decryptVaultEntry(encryptedEntry, key)\<close>: every exception becomes one error.\<close>

definition decryptVaultEntry :: "platform \<Rightarrow> jsval \<Rightarrow> bytes \<Rightarrow> js_error + jsval" where
  "decryptVaultEntry lib encryptedEntry key =
     (case decryptVaultEntry_try lib encryptedEntry key of
        Inl e \<Rightarrow> Inl (Error ''Failed to decrypt vault entry'')
      | Inr entry \<Rightarrow> Inr entry)"

text \<open>The lock sign U+1F512 that starts the name of a placeholder, in UTF-8.\<close>

definition lock_sign :: string where
  "lock_sign = [CHR 0xF0, CHR 0x9F, CHR 0x94, CHR 0x92]"

text \<open>
  The callback of \<^verbatim>\<open>getVaultEntries\<close>. The object literal of the \<^verbatim>\<open>try\<close> block
  reads four properties of the entry; the \<^verbatim>\<open>catch\<close> block reads the id for the
  log, outside any \<^verbatim>\<open>try\<close>, and builds the placeholder. Writing to the console is
  not modelled.
\<close>

definition list_entry :: "platform \<Rightarrow> bytes \<Rightarrow> jsval \<Rightarrow> js_error + jsval" where
  "list_entry lib key encryptedEntry =
     (case and_then (get_prop encryptedEntry ''id'') (\<lambda>entry_id.
           and_then (get_prop encryptedEntry ''encryptedData'') (\<lambda>encryptedData.
           and_then (get_prop encryptedEntry ''createdAt'') (\<lambda>createdAt.
           and_then (get_prop encryptedEntry ''updatedAt'') (\<lambda>updatedAt.
             decryptVaultEntry lib
               (Obj [(''id'', entry_id), (''encryptedData'', encryptedData),
                     (''createdAt'', createdAt), (''updatedAt'', updatedAt)]) key)))) of
        Inr entry \<Rightarrow> Inr entry
      | Inl error \<Rightarrow>
          and_then (get_prop encryptedEntry ''id'') (\<lambda>logged_id.
          and_then (get_prop encryptedEntry ''id'') (\<lambda>entry_id.
          and_then (get_prop encryptedEntry ''createdAt'') (\<lambda>createdAt.
          and_then (get_prop encryptedEntry ''updatedAt'') (\<lambda>updatedAt.
            Inr (Obj [(''id'', entry_id),
                      (''name'', Str (lock_sign @ '' Encrypted Entry'')),
                      (''favorite'', Bool False),
                      (''createdAt'', createdAt),
                      (''updatedAt'', updatedAt)]))))))"

text \<open>
  What \<^verbatim>\<open>apiService.getVaultEntries()\<close> resolves to: an object with the properties
  \<^verbatim>\<open>data\<close> and \<^verbatim>\<open>error\<close>, \<^verbatim>\<open>undefined\<close> when absent.
\<close>

record api_response =
  response_data :: jsval
  response_error :: jsval

text \<open>
  \<^verbatim>\<open>getVaultEntries(key)\<close>, from the outcome of the awaited request on. A value
  that is not an array has no \<^verbatim>\<open>map\<close> method: calling it throws a TypeError.
\<close>

definition getVaultEntries :: "platform \<Rightarrow> js_error + api_response \<Rightarrow> bytes \<Rightarrow> jsval list" where
  "getVaultEntries lib request key =
     (case and_then request (\<lambda>response.
             if truthy (response_error response) \<or> \<not> truthy (response_data response)
             then Inr []
             else (case response_data response of
                     Arr entries \<Rightarrow> map_throwing (list_entry lib key) entries
                   | _ \<Rightarrow> Inl (TypeError ''response.data.map is not a function''))) of
        Inr entries \<Rightarrow> entries
      | Inl error \<Rightarrow> [])"

text \<open>\<^verbatim>\<open>v || new Date().toISOString()\<close>: the clock is read only when \<open>v\<close> is falsy.\<close>

definition or_now :: "jsval \<Rightarrow> clock \<Rightarrow> jsval \<times> clock" where
  "or_now v clk =
     (if truthy v then (v, clk) else (let (t, clk') = now_ISOString clk in (Str t, clk')))"

text \<open>
  The callback of \<^verbatim>\<open>importVault\<close>: the entry decrypted, or the placeholder. The
  \<^verbatim>\<open>catch\<close> block reads the id for the log first, outside any \<^verbatim>\<open>try\<close>.
\<close>

definition import_entry :: "platform \<Rightarrow> bytes \<Rightarrow> jsval \<Rightarrow> clock \<Rightarrow> (js_error + jsval) \<times> clock" where
  "import_entry lib key encryptedEntry clk =
     (case decryptVaultEntry lib encryptedEntry key of
        Inr entry \<Rightarrow> (Inr entry, clk)
      | Inl error \<Rightarrow>
          (case and_then (get_prop encryptedEntry ''id'') (\<lambda>logged_id.
                and_then (get_prop encryptedEntry ''id'') (\<lambda>entry_id.
                and_then (get_prop encryptedEntry ''createdAt'') (\<lambda>createdAt.
                and_then (get_prop encryptedEntry ''updatedAt'') (\<lambda>updatedAt.
                  Inr (entry_id, createdAt, updatedAt))))) of
             Inl e \<Rightarrow> (Inl e, clk)
           | Inr (entry_id, createdAt, updatedAt) \<Rightarrow>
               (let (created, clk1) = or_now createdAt clk;
                    (updated, clk2) = or_now updatedAt clk1
                in (Inr (Obj [(''id'', if truthy entry_id then entry_id else Str ''unknown''),
                              (''name'', Str (lock_sign @ '' Encrypted Import Entry'')),
                              (''favorite'', Bool False),
                              (''createdAt'', created),
                              (''updatedAt'', updated)]),
                    clk2))))"

text \<open>\<^verbatim>\<open>importData.entries.map(...)\<close> with that callback, the clock passed along.\<close>

fun import_entries :: "platform \<Rightarrow> bytes \<Rightarrow> jsval list \<Rightarrow> clock \<Rightarrow> (js_error + jsval list) \<times> clock" where
  "import_entries lib key [] clk = (Inr [], clk)"
| "import_entries lib key (encryptedEntry # rest) clk =
     (case import_entry lib key encryptedEntry clk of
        (Inl e, clk') \<Rightarrow> (Inl e, clk')
      | (Inr entry, clk') \<Rightarrow>
          (case import_entries lib key rest clk' of
             (Inl e, clk'') \<Rightarrow> (Inl e, clk'')
           | (Inr entries, clk'') \<Rightarrow> (Inr (entry # entries), clk'')))"

text \<open>The \<^verbatim>\<open>try\<close> block of \<^verbatim>\<open>importVault\<close>.\<close>

definition importVault_try :: "platform \<Rightarrow> string \<Rightarrow> bytes \<Rightarrow> clock \<Rightarrow> (js_error + jsval list) \<times> clock" where
  "importVault_try lib jsonData key clk =
     (case JSON_parse lib jsonData of
        Inl e \<Rightarrow> (Inl e, clk)
      | Inr importData \<Rightarrow>
          (case get_prop importData ''format'' of
             Inl e \<Rightarrow> (Inl e, clk)
           | Inr format \<Rightarrow>
               if format \<noteq> Str ''falconpass-export''
               then (Inl (Error ''Invalid export format''), clk)
               else (case get_prop importData ''entries'' of
                       Inl e \<Rightarrow> (Inl e, clk)
                     | Inr (Arr entries) \<Rightarrow> import_entries lib key entries clk
                     | Inr _ \<Rightarrow> (Inl (TypeError ''importData.entries.map is not a function''), clk))))"

text \<open>\<^verbatim>\<open>importVault(jsonData, key)\<close>: every exception becomes one error.\<close>

definition importVault :: "platform \<Rightarrow> string \<Rightarrow> bytes \<Rightarrow> clock \<Rightarrow> (js_error + jsval list) \<times> clock" where
  "importVault lib jsonData key clk =
     (case importVault_try lib jsonData key clk of
        (Inl error, clk') \<Rightarrow> (Inl (Error ''Failed to import vault: Invalid format''), clk')
      | (Inr entries, clk') \<Rightarrow> (Inr entries, clk'))"

subsection \<open>The vault service with a log of the secret boxes opened\<close>

text \<open>
  To state which calls an import makes, the same code is written once more with
  a log passed along as the random source and the clock are: every call of
  \<^verbatim>\<open>sodium.crypto_secretbox_open_easy\<close> appends its arguments. The functions
  without the log are these with the log forgotten, which is proved below.
\<close>

type_synonym open_log = "(bytes \<times> bytes \<times> bytes) list"

definition decryptData_logged ::
  "platform \<Rightarrow> bytes \<Rightarrow> bytes \<Rightarrow> bytes \<Rightarrow> open_log \<Rightarrow> (js_error + string) \<times> open_log" where
  "decryptData_logged lib ciphertext nonce key log =
     (let opened = crypto_secretbox_open_easy lib ciphertext nonce key;
          log' = log @ [(ciphertext, nonce, key)]
      in (case opened of
            Inl e \<Rightarrow> Inl decryption_failed
          | Inr decrypted \<Rightarrow>
              (case to_string lib decrypted of
                 Inl e \<Rightarrow> Inl decryption_failed
               | Inr s \<Rightarrow> Inr s),
          log'))"

definition decryptVaultEntry_try_logged ::
  "platform \<Rightarrow> jsval \<Rightarrow> bytes \<Rightarrow> open_log \<Rightarrow> (js_error + jsval) \<times> open_log" where
  "decryptVaultEntry_try_logged lib encryptedEntry key log =
     (case and_then (get_prop encryptedEntry ''encryptedData'') (deserialize_value lib) of
        Inl e \<Rightarrow> (Inl e, log)
      | Inr env \<Rightarrow>
          (let (decrypted, log') =
                 decryptData_logged lib (env_ciphertext env) (env_nonce env) key log
           in (and_then decrypted (\<lambda>decryptedJson.
               and_then (JSON_parse lib decryptedJson) (\<lambda>entry.
               and_then (get_prop encryptedEntry ''id'') (\<lambda>entry_id.
               and_then (get_prop encryptedEntry ''createdAt'') (\<lambda>createdAt.
               and_then (get_prop encryptedEntry ''updatedAt'') (\<lambda>updatedAt.
                 Inr (Obj (set_prop ''updatedAt'' updatedAt
                          (set_prop ''createdAt'' createdAt
                          (set_prop ''id'' entry_id (own_props entry)))))))))),
               log')))"

definition decryptVaultEntry_logged ::
  "platform \<Rightarrow> jsval \<Rightarrow> bytes \<Rightarrow> open_log \<Rightarrow> (js_error + jsval) \<times> open_log" where
  "decryptVaultEntry_logged lib encryptedEntry key log =
     (case decryptVaultEntry_try_logged lib encryptedEntry key log of
        (Inl e, log') \<Rightarrow> (Inl (Error ''Failed to decrypt vault entry''), log')
      | (Inr entry, log') \<Rightarrow> (Inr entry, log'))"

definition import_entry_logged ::
  "platform \<Rightarrow> bytes \<Rightarrow> jsval \<Rightarrow> clock \<Rightarrow> open_log
     \<Rightarrow> (js_error + jsval) \<times> clock \<times> open_log" where
  "import_entry_logged lib key encryptedEntry clk log =
     (case decryptVaultEntry_logged lib encryptedEntry key log of
        (Inr entry, log') \<Rightarrow> (Inr entry, clk, log')
      | (Inl error, log') \<Rightarrow>
          (case and_then (get_prop encryptedEntry ''id'') (\<lambda>logged_id.
                and_then (get_prop encryptedEntry ''id'') (\<lambda>entry_id.
                and_then (get_prop encryptedEntry ''createdAt'') (\<lambda>createdAt.
                and_then (get_prop encryptedEntry ''updatedAt'') (\<lambda>updatedAt.
                  Inr (entry_id, createdAt, updatedAt))))) of
             Inl e \<Rightarrow> (Inl e, clk, log')
           | Inr (entry_id, createdAt, updatedAt) \<Rightarrow>
               (let (created, clk1) = or_now createdAt clk;
                    (updated, clk2) = or_now updatedAt clk1
                in (Inr (Obj [(''id'', if truthy entry_id then entry_id else Str ''unknown''),
                              (''name'', Str (lock_sign @ '' Encrypted Import Entry'')),
                              (''favorite'', Bool False),
                              (''createdAt'', created),
                              (''updatedAt'', updated)]),
                    clk2, log'))))"

fun import_entries_logged ::
  "platform \<Rightarrow> bytes \<Rightarrow> jsval list \<Rightarrow> clock \<Rightarrow> open_log
     \<Rightarrow> (js_error + jsval list) \<times> clock \<times> open_log" where
  "import_entries_logged lib key [] clk log = (Inr [], clk, log)"
| "import_entries_logged lib key (encryptedEntry # rest) clk log =
     (case import_entry_logged lib key encryptedEntry clk log of
        (Inl e, clk', log') \<Rightarrow> (Inl e, clk', log')
      | (Inr entry, clk', log') \<Rightarrow>
          (case import_entries_logged lib key rest clk' log' of
             (Inl e, clk'', log'') \<Rightarrow> (Inl e, clk'', log'')
           | (Inr entries, clk'', log'') \<Rightarrow> (Inr (entry # entries), clk'', log'')))"

definition importVault_try_logged ::
  "platform \<Rightarrow> string \<Rightarrow> bytes \<Rightarrow> clock \<Rightarrow> open_log
     \<Rightarrow> (js_error + jsval list) \<times> clock \<times> open_log" where
  "importVault_try_logged lib jsonData key clk log =
     (case JSON_parse lib jsonData of
        Inl e \<Rightarrow> (Inl e, clk, log)
      | Inr importData \<Rightarrow>
          (case get_prop importData ''format'' of
             Inl e \<Rightarrow> (Inl e, clk, log)
           | Inr format \<Rightarrow>
               if format \<noteq> Str ''falconpass-export''
               then (Inl (Error ''Invalid export format''), clk, log)
               else (case get_prop importData ''entries'' of
                       Inl e \<Rightarrow> (Inl e, clk, log)
                     | Inr (Arr entries) \<Rightarrow> import_entries_logged lib key entries clk log
                     | Inr _ \<Rightarrow>
                         (Inl (TypeError ''importData.entries.map is not a function''),
                          clk, log))))"

definition importVault_logged ::
  "platform \<Rightarrow> string \<Rightarrow> bytes \<Rightarrow> clock \<Rightarrow> open_log
     \<Rightarrow> (js_error + jsval list) \<times> clock \<times> open_log" where
  "importVault_logged lib jsonData key clk log =
     (case importVault_try_logged lib jsonData key clk log of
        (Inl error, clk', log') \<Rightarrow>
          (Inl (Error ''Failed to import vault: Invalid format''), clk', log')
      | (Inr entries, clk', log') \<Rightarrow> (Inr entries, clk', log'))"

subsection \<open>An executable platform\<close>

text \<open>
  The theorems below hold for every platform, some under assumptions on what
  the library computes. This instance shows that the assumptions can be met and
  lets the functions of the repository run on concrete input. Its Base64 is that of
  RFC 4648, section 5, without padding, the default variant of
  \<^verbatim>\<open>sodium.to_base64\<close>; a string is the list of the bytes of its UTF-8 form,
  which \<open>to_string\<close> does not check; its secret box and its key derivation have
  the interface of the library and none of its security.
\<close>

unbundle bit_operations_syntax

definition base64_alphabet :: string where
  "base64_alphabet = ''ABCDEFGHIJKLMNOPQRSTUVWXYZabcdefghijklmnopqrstuvwxyz0123456789-_''"

text \<open>Three octets make four sextets; one or two octets left over make two or three.\<close>

fun base64_sextets :: "nat list \<Rightarrow> nat list" where
  "base64_sextets [] = []"
| "base64_sextets [a] = [a div 4, (a mod 4) * 16]"
| "base64_sextets [a, b] = [a div 4, (a mod 4) * 16 + b div 16, (b mod 16) * 4]"
| "base64_sextets (a # b # c # rest) =
     [a div 4, (a mod 4) * 16 + b div 16, (b mod 16) * 4 + c div 64, c mod 64]
     @ base64_sextets rest"

definition base64_encode :: "bytes \<Rightarrow> string" where
  "base64_encode bs = map (\<lambda>i. base64_alphabet ! i) (base64_sextets (map unat bs))"

text \<open>The way back; the bits that do not fill an octet must be zero.\<close>

fun base64_octets :: "nat list \<Rightarrow> nat list option" where
  "base64_octets [] = Some []"
| "base64_octets [a] = None"
| "base64_octets [a, b] = (if b mod 16 = 0 then Some [a * 4 + b div 16] else None)"
| "base64_octets [a, b, c] =
     (if c mod 4 = 0 then Some [a * 4 + b div 16, (b mod 16) * 16 + c div 4] else None)"
| "base64_octets (a # b # c # d # rest) =
     (case base64_octets rest of
        None \<Rightarrow> None
      | Some bs \<Rightarrow>
          Some ([a * 4 + b div 16, (b mod 16) * 16 + c div 4, (c mod 4) * 64 + d] @ bs))"

fun base64_digits :: "string \<Rightarrow> nat list option" where
  "base64_digits [] = Some []"
| "base64_digits (c # cs) =
     (case map_of (zip base64_alphabet [0..<64]) c of
        None \<Rightarrow> None
      | Some d \<Rightarrow> (case base64_digits cs of None \<Rightarrow> None | Some ds \<Rightarrow> Some (d # ds)))"

definition base64_decode :: "string \<Rightarrow> js_error + bytes" where
  "base64_decode s =
     (case base64_digits s of
        None \<Rightarrow> Inl (Error ''invalid input'')
      | Some ds \<Rightarrow>
          (case base64_octets ds of
             None \<Rightarrow> Inl (Error ''invalid input'')
           | Some bs \<Rightarrow> Inr (map of_nat bs)))"

definition string_bytes :: "string \<Rightarrow> bytes" where
  "string_bytes s = map (\<lambda>c. of_nat (of_char c)) s"

text \<open>
  The byte order mark U+FEFF in UTF-8. The decoder behind \<^verbatim>\<open>sodium.to_string\<close>
  drops it from the start of the bytes, as the decoders of the Encoding standard do.
\<close>

definition utf8_bom :: bytes where
  "utf8_bom = [0xEF, 0xBB, 0xBF]"

definition bytes_string :: "bytes \<Rightarrow> js_error + string" where
  "bytes_string bs =
     Inr (map (\<lambda>b. char_of (unat b)) (if take 3 bs = utf8_bom then drop 3 bs else bs))"

definition toy_tag :: "bytes \<Rightarrow> bytes \<Rightarrow> bytes" where
  "toy_tag nonce key = map (\<lambda>(a, b). a XOR b) (zip (take 16 nonce) (take 16 key))"

definition toy_secretbox_easy :: "bytes \<Rightarrow> bytes \<Rightarrow> bytes \<Rightarrow> js_error + bytes" where
  "toy_secretbox_easy message nonce key =
     (if length nonce \<noteq> 24 \<or> length key \<noteq> 32
      then Inl (TypeError ''invalid nonce or key length'')
      else Inr (toy_tag nonce key @ map (\<lambda>b. b XOR hd key) message))"

definition toy_secretbox_open_easy :: "bytes \<Rightarrow> bytes \<Rightarrow> bytes \<Rightarrow> js_error + bytes" where
  "toy_secretbox_open_easy ciphertext nonce key =
     (if length nonce \<noteq> 24 \<or> length key \<noteq> 32
      then Inl (TypeError ''invalid nonce or key length'')
      else if take 16 ciphertext \<noteq> toy_tag nonce key
      then Inl (Error ''wrong secret key for the given ciphertext'')
      else Inr (map (\<lambda>b. b XOR hd key) (drop 16 ciphertext)))"

definition toy_argon2_hash :: "argon2_params \<Rightarrow> js_error + bytes" where
  "toy_argon2_hash p =
     (if length (arg_salt p) < 8
      then Inl (Error ''Salt is too short'')
      else Inr (take (arg_hashLen p)
                  (string_bytes (arg_pass p) @ arg_salt p @ replicate (arg_hashLen p) 0)))"

text \<open>\<^verbatim>\<open>JSON.parse\<close> on the documents of a table; every other text is a syntax error.\<close>

definition parse_table :: "(string \<times> jsval) list \<Rightarrow> string \<Rightarrow> js_error + jsval" where
  "parse_table documents text =
     (case map_of documents text of
        None \<Rightarrow> Inl (Thrown ''SyntaxError'' ''Unexpected token'')
      | Some v \<Rightarrow> Inr v)"

definition reference_platform :: "(string \<times> jsval) list \<Rightarrow> platform" where
  "reference_platform documents =
     \<lparr>from_string = string_bytes,
      to_string = bytes_string,
      crypto_secretbox_easy = toy_secretbox_easy,
      crypto_secretbox_open_easy = toy_secretbox_open_easy,
      to_base64 = base64_encode,
      from_base64 = base64_decode,
      argon2_hash = toy_argon2_hash,
      JSON_parse = parse_table documents\<rparr>"

subsection \<open>Sample data on the executable platform\<close>

definition sample_key :: bytes where
  "sample_key = replicate 32 7"

definition sample_salt :: bytes where
  "sample_salt = replicate 16 1"

definition sample_rng :: rng where
  "sample_rng = (\<lambda>i. 2)"

text \<open>A text that starts with the byte order mark.\<close>

definition marked_document :: string where
  "marked_document = [CHR 0xEF, CHR 0xBB, CHR 0xBF] @ ''{}''"

definition sample_document :: string where
  "sample_document = ''{\"id\":\"inner\",\"name\":\"Gmail\",\"favorite\":true}''"

definition sample_entry :: jsval where
  "sample_entry = Obj [(''id'', Str ''inner''), (''name'', Str ''Gmail''), (''favorite'', Bool True)]"

text \<open>
  The field \<^verbatim>\<open>encryptedData\<close> of the sample: the document sealed by
  \<^verbatim>\<open>encryptData\<close> and serialized by \<^verbatim>\<open>serializeEncryptedData\<close>, as
  \<^verbatim>\<open>encryptVaultEntry\<close> does it.
\<close>

definition sample_encryptedData :: string where
  "sample_encryptedData =
     (case fst (encryptData (reference_platform []) sample_document sample_key sample_rng) of
        Inl e \<Rightarrow> ''''
      | Inr s \<Rightarrow>
          (case serializeEncryptedData (reference_platform [])
                  (sealed_ciphertext s) (sealed_nonce s) sample_salt of
             Inl e \<Rightarrow> ''''
           | Inr t \<Rightarrow> t))"

definition sample_encrypted_entry :: jsval where
  "sample_encrypted_entry =
     Obj [(''id'', Str ''42''),
          (''encryptedData'', Str sample_encryptedData),
          (''createdAt'', Str ''2024-01-01T00:00:00.000Z''),
          (''updatedAt'', Str ''2024-02-02T00:00:00.000Z'')]"

text \<open>An entry whose data is too short to hold a nonce, and which has no dates.\<close>

definition damaged_encrypted_entry :: jsval where
  "damaged_encrypted_entry = Obj [(''id'', Str ''43''), (''encryptedData'', Str ''AAAA'')]"

text \<open>The two entries as JSON text.\<close>

definition sample_encrypted_entry_text :: string where
  "sample_encrypted_entry_text =
     ''{\"id\":\"42\",\"encryptedData\":\"'' @ sample_encryptedData
     @ ''\",\"createdAt\":\"2024-01-01T00:00:00.000Z\",\"updatedAt\":\"2024-02-02T00:00:00.000Z\"}''"

definition damaged_encrypted_entry_text :: string where
  "damaged_encrypted_entry_text = ''{\"id\":\"43\",\"encryptedData\":\"AAAA\"}''"

definition sample_archive_text :: string where
  "sample_archive_text =
     ''{\"format\":\"falconpass-export\",\"version\":\"1.0.0\",\"entries\":[''
     @ sample_encrypted_entry_text @ '','' @ damaged_encrypted_entry_text @ '',''
     @ sample_encrypted_entry_text @ '']}''"

definition sample_archive :: jsval where
  "sample_archive =
     Obj [(''format'', Str ''falconpass-export''),
          (''version'', Str ''1.0.0''),
          (''entries'', Arr [sample_encrypted_entry, damaged_encrypted_entry,
                            sample_encrypted_entry])]"

definition foreign_archive_text :: string where
  "foreign_archive_text =
     ''{\"format\":\"not-falconpass\",\"entries\":['' @ sample_encrypted_entry_text @ '']}''"

definition foreign_archive :: jsval where
  "foreign_archive =
     Obj [(''format'', Str ''not-falconpass''),
          (''entries'', Arr [sample_encrypted_entry])]"

text \<open>An archive whose second entry is \<^verbatim>\<open>null\<close>.\<close>

definition null_entry_archive_text :: string where
  "null_entry_archive_text =
     ''{\"format\":\"falconpass-export\",\"entries\":[''
     @ sample_encrypted_entry_text @ '',null,'' @ sample_encrypted_entry_text @ '']}''"

definition null_entry_archive :: jsval where
  "null_entry_archive =
     Obj [(''format'', Str ''falconpass-export''),
          (''entries'', Arr [sample_encrypted_entry, Null, sample_encrypted_entry])]"

text \<open>A reply of the server whose second entry is \<^verbatim>\<open>null\<close>.\<close>

definition null_entry_response :: api_response where
  "null_entry_response =
     \<lparr>response_data = Arr [sample_encrypted_entry, Null, sample_encrypted_entry],
      response_error = Undefined\<rparr>"

definition sample_documents :: "(string \<times> jsval) list" where
  "sample_documents =
     [(sample_document, sample_entry),
      (sample_archive_text, sample_archive),
      (foreign_archive_text, foreign_archive),
      (null_entry_archive_text, null_entry_archive)]"

definition sample_platform :: platform where
  "sample_platform = reference_platform sample_documents"

definition sample_clock :: clock where
  "sample_clock = (\<lambda>i. if i = 0 then ''2025-05-05T05:05:05.000Z'' else ''2025-05-05T05:05:05.001Z'')"

subsection \<open>The words of the specification\<close>

text \<open>
  The library keeps its promise for secret boxes: what
  \<^verbatim>\<open>crypto_secretbox_easy\<close> seals under a 24-byte nonce and a 32-byte key,
  \<^verbatim>\<open>crypto_secretbox_open_easy\<close> opens under the same nonce and key.
\<close>

definition secretbox_opens_sealed :: "platform \<Rightarrow> bool" where
  "secretbox_opens_sealed lib \<longleftrightarrow>
     (\<forall>message nonce key. length nonce = 24 \<and> length key = 32 \<longrightarrow>
        (\<exists>c. crypto_secretbox_easy lib message nonce key = Inr c
            \<and> crypto_secretbox_open_easy lib c nonce key = Inr message))"

text \<open>The hash that \<^verbatim>\<open>argon2.hash\<close> resolves to has the length that was asked for.\<close>

definition argon2_honours_hashLen :: "platform \<Rightarrow> bool" where
  "argon2_honours_hashLen lib \<longleftrightarrow>
     (\<forall>p h. argon2_hash lib p = Inr h \<longrightarrow> length h = arg_hashLen p)"

text \<open>The union of the character sets that the flags select.\<close>

definition selected_chars :: "pw_options \<Rightarrow> char set" where
  "selected_chars options =
     (if uppercase options then set uppercaseChars else {})
     \<union> (if lowercase options then set lowercaseChars else {})
     \<union> (if numbers options then set numberChars else {})
     \<union> (if symbols options then set symbolChars else {})"

text \<open>The values that have no properties to read.\<close>

fun nullish :: "jsval \<Rightarrow> bool" where
  "nullish Undefined = True"
| "nullish Null = True"
| "nullish v = False"

text \<open>The value of a property of a value that is not nullish.\<close>

definition prop_of :: "jsval \<Rightarrow> string \<Rightarrow> jsval" where
  "prop_of v name = (case get_prop v name of Inl e \<Rightarrow> Undefined | Inr x \<Rightarrow> x)"

section \<open>Properties\<close>

subsection \<open>The executable platform meets the assumptions\<close>

lemma toy_tag_length:
  "length nonce = 24 \<Longrightarrow> length key = 32 \<Longrightarrow> length (toy_tag nonce key) = 16"
  by (simp add: toy_tag_def)

lemma xor_twice: "(x XOR h) XOR h = (x::byte)"
  by (simp add: xor.assoc)

lemma reference_secretbox_opens_sealed:
  "secretbox_opens_sealed (reference_platform documents)"
  by (simp add: secretbox_opens_sealed_def reference_platform_def toy_secretbox_easy_def
        toy_secretbox_open_easy_def toy_tag_length comp_def xor_twice)

lemma reference_argon2_honours_hashLen:
  "argon2_honours_hashLen (reference_platform documents)"
  by (auto simp add: argon2_honours_hashLen_def reference_platform_def toy_argon2_hash_def
        split: if_splits)

lemma base64_alphabet_distinct: "distinct base64_alphabet"
  by (simp add: base64_alphabet_def)

lemma base64_alphabet_length: "length base64_alphabet = 64"
  by (simp add: base64_alphabet_def)

lemma base64_digit_of_letter:
  assumes "i < 64"
  shows "map_of (zip base64_alphabet [0..<64]) (base64_alphabet ! i) = Some i"
proof -
  have "map_of (zip base64_alphabet [0..<64]) (base64_alphabet ! i) = Some ([0..<64] ! i)"
    using assms base64_alphabet_distinct base64_alphabet_length
    by (intro map_of_zip_nth) simp_all
  with assms show ?thesis by simp
qed

lemma base64_digits_of_letters:
  "\<forall>d \<in> set ds. d < 64 \<Longrightarrow> base64_digits (map (\<lambda>i. base64_alphabet ! i) ds) = Some ds"
  by (induction ds) (simp_all add: base64_digit_of_letter)

lemma base64_sextets_bound:
  "\<forall>a \<in> set bs. a < 256 \<Longrightarrow> \<forall>d \<in> set (base64_sextets bs). d < 64"
  by (induction bs rule: base64_sextets.induct) auto

lemma base64_octets_of_sextets:
  "\<forall>a \<in> set bs. a < 256 \<Longrightarrow> base64_octets (base64_sextets bs) = Some bs"
  by (induction bs rule: base64_sextets.induct) auto

lemma base64_decode_encode: "base64_decode (base64_encode bs) = Inr bs"
proof -
  have "unat b < 256" for b :: byte
    using unsigned_less [of b, where 'a = nat] by simp
  then have bound: "\<forall>a \<in> set (map unat bs). a < 256"
    by simp
  have "map (of_nat :: nat \<Rightarrow> byte) (map unat bs) = bs"
    by (simp add: map_idI)
  then show ?thesis
    using base64_digits_of_letters [OF base64_sextets_bound [OF bound]]
      base64_octets_of_sextets [OF bound]
    by (simp add: base64_decode_def base64_encode_def)
qed

lemma reference_base64_roundtrip:
  "from_base64 (reference_platform documents) (to_base64 (reference_platform documents) bs)
     = Inr bs"
  by (simp add: reference_platform_def base64_decode_encode)

subsection \<open>The wire format\<close>

lemma combined_bytes:
  "typed_array_set (replicate (length s + length n + length c) 0) s 0
     = Inr (s @ replicate (length n + length c) 0)"
  "typed_array_set (s @ replicate (length n + length c) 0) n (length s)
     = Inr (s @ n @ replicate (length c) 0)"
  "typed_array_set (s @ n @ replicate (length c) 0) c (length s + length n)
     = Inr (s @ n @ c)"
  by (simp_all add: typed_array_set_def)

lemma serialize_encodes_concatenation:
  "serializeEncryptedData lib ciphertext nonce salt
     = Inr (to_base64 lib (salt @ nonce @ ciphertext))"
  by (simp add: serializeEncryptedData_def combined_bytes)

lemma deserialize_decoded:
  "from_base64 lib t = Inr combined \<Longrightarrow>
   deserializeEncryptedData lib t =
     Inr \<lparr>env_ciphertext = drop 40 combined, env_nonce = drop 16 (take 40 combined),
          env_salt = take 16 combined\<rparr>"
  by (simp add: deserializeEncryptedData_def slice_def slice_from_def
        SALT_BYTES_def NONCE_BYTES_def)

text \<open>
  Claim C6. For every salt, nonce and ciphertext, those of 16 and 24 bytes among
  them, \<^verbatim>\<open>serializeEncryptedData\<close> does not throw, and its result is the Base64
  text of the bytes of the salt, then those of the nonce, then those of the
  ciphertext: the three \<^verbatim>\<open>set\<close> calls fill the zeroed array exactly.
\<close>

theorem serialize_is_base64_of_salt_nonce_ciphertext:
  "serializeEncryptedData lib ciphertext nonce salt
     = Inr (to_base64 lib (salt @ nonce @ ciphertext))"
  by (simp add: serializeEncryptedData_def combined_bytes)

text \<open>
  Claim C2. For a salt of 16 bytes, a nonce of 24 bytes and any ciphertext, where
  the library decodes the Base64 text of their concatenation back to it,
  deserializing the serialized envelope returns the ciphertext, the nonce and the
  salt that went in.
\<close>

theorem deserialize_serialize_roundtrip:
  assumes "length salt = 16" and "length nonce = 24"
    and "from_base64 lib (to_base64 lib (salt @ nonce @ ciphertext))
           = Inr (salt @ nonce @ ciphertext)"
  shows "\<exists>t. serializeEncryptedData lib ciphertext nonce salt = Inr t
           \<and> deserializeEncryptedData lib t =
               Inr \<lparr>env_ciphertext = ciphertext, env_nonce = nonce, env_salt = salt\<rparr>"
  using assms
  by (simp add: serialize_encodes_concatenation deserialize_decoded)

theorem deserialize_serialize_roundtrip_witness:
  "length (replicate 16 (1::byte)) = 16 \<and> length (replicate 24 (2::byte)) = 24
   \<and> from_base64 (reference_platform [])
         (to_base64 (reference_platform []) (replicate 16 1 @ replicate 24 2 @ [9, 8, 7, 6]))
       = Inr (replicate 16 1 @ replicate 24 2 @ [9, 8, 7, 6])
   \<and> (\<exists>t. serializeEncryptedData (reference_platform []) [9, 8, 7, 6]
              (replicate 24 2) (replicate 16 1) = Inr t
           \<and> deserializeEncryptedData (reference_platform []) t =
               Inr \<lparr>env_ciphertext = [9, 8, 7, 6], env_nonce = replicate 24 2,
                    env_salt = replicate 16 1\<rparr>)"
proof -
  have h1: "length (replicate 16 (1::byte)) = 16"
    and h2: "length (replicate 24 (2::byte)) = 24"
    by simp_all
  have h3: "from_base64 (reference_platform [])
         (to_base64 (reference_platform []) (replicate 16 1 @ replicate 24 2 @ [9, 8, 7, 6]))
       = Inr (replicate 16 1 @ replicate 24 2 @ [9, 8, 7, 6])"
    by (rule reference_base64_roundtrip)
  show ?thesis
    using h1 h2 h3 deserialize_serialize_roundtrip [OF h1 h2 h3] by blast
qed

text \<open>
  Claim C3, amended. \<^verbatim>\<open>deserializeEncryptedData\<close> checks no length. When the
  Base64 text decodes to fewer than 40 bytes it does not throw: it returns the
  first 16 bytes (all of them when there are fewer) as the salt, the bytes after
  the 16th as the nonce, and the empty ciphertext.
\<close>

theorem deserialize_short_input:
  assumes "from_base64 lib t = Inr combined" and "length combined < 40"
  shows "deserializeEncryptedData lib t =
           Inr \<lparr>env_ciphertext = [], env_nonce = drop 16 combined,
                env_salt = take 16 combined\<rparr>"
  using assms by (simp add: deserialize_decoded)

theorem deserialize_short_input_witness:
  "from_base64 (reference_platform []) ''AQID'' = Inr [1, 2, 3]
   \<and> length [1, 2, 3 :: byte] < 40
   \<and> deserializeEncryptedData (reference_platform []) ''AQID'' =
         Inr \<lparr>env_ciphertext = [], env_nonce = drop 16 [1, 2, 3],
              env_salt = take 16 [1, 2, 3]\<rparr>"
proof -
  have h1: "from_base64 (reference_platform []) ''AQID'' = Inr [1, 2, 3]"
    by code_simp
  have h2: "length [1, 2, 3 :: byte] < 40"
    by simp
  show ?thesis
    using h1 h2 deserialize_short_input [OF h1 h2] by blast
qed

text \<open>
  The claim as the specification words it fails on the text \<^verbatim>\<open>AAAA\<close>, which decodes
  to three zero bytes: the result is an envelope, not an error.
\<close>

theorem deserialize_short_counterexample:
  "from_base64 (reference_platform []) ''AAAA'' = Inr [0, 0, 0]
   \<and> deserializeEncryptedData (reference_platform []) ''AAAA''
       = Inr \<lparr>env_ciphertext = [], env_nonce = [], env_salt = [0, 0, 0]\<rparr>"
  by code_simp

subsection \<open>The password generator\<close>

lemma password_loop_length_set:
  assumes "charset \<noteq> []" and "len \<le> length randomBytes"
  shows "length (password_loop charset randomBytes len i password)
           = length password + (len - i)
       \<and> set (password_loop charset randomBytes len i password)
           \<subseteq> set password \<union> set charset"
  using assms
proof (induction charset randomBytes len i password rule: password_loop.induct)
  case (1 charset randomBytes len i password)
  show ?case
  proof (cases "i < len")
    case True
    with "1.prems" have pick: "pick_char charset randomBytes i
         = [charset ! (unat (randomBytes ! i) mod length charset)]"
      by (simp add: pick_char_def)
    have "unat (randomBytes ! i) mod length charset < length charset"
      using "1.prems" by simp
    then have "charset ! (unat (randomBytes ! i) mod length charset) \<in> set charset"
      by (rule nth_mem)
    with "1.IH" [OF True "1.prems"] True pick show ?thesis
      by (subst (1 2) password_loop.simps) auto
  next
    case False
    then show ?thesis
      by (subst (1 2) password_loop.simps) simp
  qed
qed

lemma build_charset_nonempty: "build_charset options \<noteq> []"
  by (simp add: build_charset_def Let_def uppercaseChars_def)

lemma build_charset_selected:
  "uppercase options \<or> lowercase options \<or> numbers options \<or> symbols options \<Longrightarrow>
   set (build_charset options) = selected_chars options"
  by (auto simp add: build_charset_def selected_chars_def Let_def uppercaseChars_def
        lowercaseChars_def numberChars_def symbolChars_def)

lemma build_charset_default:
  "\<not> (uppercase options \<or> lowercase options \<or> numbers options \<or> symbols options) \<Longrightarrow>
   build_charset options = uppercaseChars @ lowercaseChars @ numberChars"
  by (simp add: build_charset_def)

lemma generatePassword_props:
  "length (fst (generatePassword (Some n) (Some options) g)) = n
   \<and> set (fst (generatePassword (Some n) (Some options) g)) \<subseteq> set (build_charset options)"
  using password_loop_length_set [of "build_charset options" n "map g [0..<n * 2]" 0 "[]"]
  by (simp add: generatePassword_def randombytes_buf_def build_charset_nonempty)

text \<open>
  Claim C8. For every length \<open>n\<close>, every setting of the four flags and every state
  of the random source, \<^verbatim>\<open>generatePassword\<close> returns \<open>n\<close> characters. When a flag is
  set they all lie in the union of the selected character sets; when none is set
  they lie in the alphanumeric set, and nothing is thrown. For the length 16 and
  the flag \<^verbatim>\<open>numbers\<close> alone, the result is 16 digits.
\<close>

theorem generatePassword_length_and_charset:
  "length (fst (generatePassword (Some n) (Some options) g)) = n
   \<and> (uppercase options \<or> lowercase options \<or> numbers options \<or> symbols options \<longrightarrow>
        set (fst (generatePassword (Some n) (Some options) g)) \<subseteq> selected_chars options)
   \<and> (\<not> (uppercase options \<or> lowercase options \<or> numbers options \<or> symbols options) \<longrightarrow>
        set (fst (generatePassword (Some n) (Some options) g))
          \<subseteq> set (uppercaseChars @ lowercaseChars @ numberChars))
   \<and> length (fst (generatePassword (Some 16)
         (Some \<lparr>uppercase = False, lowercase = False, numbers = True, symbols = False\<rparr>) g)) = 16
   \<and> set (fst (generatePassword (Some 16)
         (Some \<lparr>uppercase = False, lowercase = False, numbers = True, symbols = False\<rparr>) g))
        \<subseteq> set ''0123456789''"
proof -
  have digits:
    "build_charset \<lparr>uppercase = False, lowercase = False, numbers = True, symbols = False\<rparr>
       = ''0123456789''"
    by (simp add: build_charset_def numberChars_def)
  show ?thesis
    using generatePassword_props [of n options g]
      generatePassword_props [of 16
        "\<lparr>uppercase = False, lowercase = False, numbers = True, symbols = False\<rparr>" g]
      build_charset_selected [of options] build_charset_default [of options]
    unfolding digits by auto
qed

text \<open>
  The theorem at the flag \<^verbatim>\<open>numbers\<close> alone and at no flag, on the random bytes
  3, 10, 17, ...
\<close>

theorem generatePassword_length_and_charset_witness:
  "fst (generatePassword (Some 16)
         (Some \<lparr>uppercase = False, lowercase = False, numbers = True, symbols = False\<rparr>)
         (\<lambda>i. of_nat (7 * i + 3))) = ''3074185296307418''
   \<and> set ''3074185296307418''
        \<subseteq> selected_chars \<lparr>uppercase = False, lowercase = False, numbers = True, symbols = False\<rparr>
   \<and> fst (generatePassword (Some 5)
         (Some \<lparr>uppercase = False, lowercase = False, numbers = False, symbols = False\<rparr>)
         (\<lambda>i. of_nat (7 * i + 3))) = ''DKRYf''
   \<and> set ''DKRYf'' \<subseteq> set (uppercaseChars @ lowercaseChars @ numberChars)"
proof -
  have v1: "fst (generatePassword (Some 16)
         (Some \<lparr>uppercase = False, lowercase = False, numbers = True, symbols = False\<rparr>)
         (\<lambda>i. of_nat (7 * i + 3))) = ''3074185296307418''"
    by code_simp
  have v2: "fst (generatePassword (Some 5)
         (Some \<lparr>uppercase = False, lowercase = False, numbers = False, symbols = False\<rparr>)
         (\<lambda>i. of_nat (7 * i + 3))) = ''DKRYf''"
    by code_simp
  show ?thesis
    using generatePassword_length_and_charset [of 16
        "\<lparr>uppercase = False, lowercase = False, numbers = True, symbols = False\<rparr>"
        "\<lambda>i. of_nat (7 * i + 3)"]
      generatePassword_length_and_charset [of 5
        "\<lparr>uppercase = False, lowercase = False, numbers = False, symbols = False\<rparr>"
        "\<lambda>i. of_nat (7 * i + 3)"]
    unfolding v1 v2 by simp
qed

subsection \<open>Sealing and opening\<close>

text \<open>
  Claim C1, amended. Let the library open what it sealed
  (\<open>secretbox_opens_sealed\<close>), let \<open>p\<close> be a text that \<^verbatim>\<open>sodium.to_string\<close> gives
  back from the bytes that \<^verbatim>\<open>sodium.from_string\<close> makes of it, and let the key
  have 32 bytes. Then, whatever the state of the random source, \<^verbatim>\<open>encryptData\<close>
  returns a ciphertext and a nonce, and \<^verbatim>\<open>decryptData\<close> on them under the same
  key returns \<open>p\<close>.
\<close>

theorem encrypt_then_decrypt:
  assumes "secretbox_opens_sealed lib"
    and "to_string lib (from_string lib p) = Inr p"
    and "length key = 32"
  shows "\<exists>ciphertext nonce.
           fst (encryptData lib p key g)
             = Inr \<lparr>sealed_ciphertext = ciphertext, sealed_nonce = nonce\<rparr>
         \<and> decryptData lib ciphertext nonce key = Inr p"
proof -
  let ?nonce = "fst (randombytes_buf NONCE_BYTES g)"
  have "length ?nonce = 24"
    by (simp add: randombytes_buf_def NONCE_BYTES_def)
  with assms(1,3) obtain c where
    seal: "crypto_secretbox_easy lib (from_string lib p) ?nonce key = Inr c" and
    opn: "crypto_secretbox_open_easy lib c ?nonce key = Inr (from_string lib p)"
    unfolding secretbox_opens_sealed_def by blast
  have "fst (encryptData lib p key g) = Inr \<lparr>sealed_ciphertext = c, sealed_nonce = ?nonce\<rparr>"
    using seal by (simp add: encryptData_def Let_def split_beta)
  moreover have "decryptData lib c ?nonce key = Inr p"
    using opn assms(2) by (simp add: decryptData_def)
  ultimately show ?thesis by blast
qed

theorem encrypt_then_decrypt_witness:
  "secretbox_opens_sealed (reference_platform [])
   \<and> to_string (reference_platform [])
         (from_string (reference_platform []) ''{\"title\":\"Gmail\"}'')
       = Inr ''{\"title\":\"Gmail\"}''
   \<and> length (replicate 32 (7::byte)) = 32
   \<and> (\<exists>ciphertext nonce.
           fst (encryptData (reference_platform []) ''{\"title\":\"Gmail\"}''
                  (replicate 32 7) (\<lambda>i. of_nat i))
             = Inr \<lparr>sealed_ciphertext = ciphertext, sealed_nonce = nonce\<rparr>
         \<and> decryptData (reference_platform []) ciphertext nonce (replicate 32 7)
             = Inr ''{\"title\":\"Gmail\"}'')"
proof -
  have h1: "secretbox_opens_sealed (reference_platform [])"
    by (rule reference_secretbox_opens_sealed)
  have h2: "to_string (reference_platform [])
         (from_string (reference_platform []) ''{\"title\":\"Gmail\"}'')
       = Inr ''{\"title\":\"Gmail\"}''"
    by code_simp
  have h3: "length (replicate 32 (7::byte)) = 32"
    by simp
  show ?thesis
    using h1 h2 h3 encrypt_then_decrypt [OF h1 h2 h3] by blast
qed

text \<open>
  The claim as the specification words it, for every text, fails on a text that
  starts with the byte order mark: \<^verbatim>\<open>decryptData\<close> decodes the opened bytes with
  \<^verbatim>\<open>sodium.to_string\<close>, which drops the mark, and returns the text without it.
\<close>

theorem encrypt_then_decrypt_counterexample:
  "length sample_key = 32
   \<and> fst (encryptData sample_platform marked_document sample_key sample_rng)
       = Inr \<lparr>sealed_ciphertext = replicate 16 5 @ [232, 188, 184, 124, 122],
              sealed_nonce = replicate 24 2\<rparr>
   \<and> decryptData sample_platform (replicate 16 5 @ [232, 188, 184, 124, 122])
         (replicate 24 2) sample_key = Inr ''{}''
   \<and> marked_document \<noteq> ''{}''"
  by code_simp

subsection \<open>Key derivation\<close>

text \<open>
  Claim C7. For every password, salt argument and state of the random source, the
  outcome of \<^verbatim>\<open>deriveKeyFromPassword\<close> is that of one call of \<^verbatim>\<open>argon2.hash\<close>
  with the type Argon2id, \<^verbatim>\<open>time\<close> 3, \<^verbatim>\<open>mem\<close> 65536 and \<^verbatim>\<open>hashLen\<close> 32 on the
  password and a salt: the hash is the key, and the salt is returned beside it.
  The salt is the one passed; when none is passed it is the next 16 bytes of
  the random source of libsodium, which are consumed. Where the library answers
  with a hash of the length asked for, the key has 32 bytes.
\<close>

theorem deriveKey_argon2id_parameters:
  "\<exists>salt.
     (case salt_arg of
        None \<Rightarrow> (salt, snd (deriveKeyFromPassword lib password salt_arg g))
                   = randombytes_buf 16 g
                 \<and> length salt = 16
      | Some s \<Rightarrow> salt = s \<and> snd (deriveKeyFromPassword lib password salt_arg g) = g)
   \<and> fst (deriveKeyFromPassword lib password salt_arg g)
       = (case argon2_hash lib \<lparr>arg_pass = password, arg_salt = salt, arg_type = Argon2id,
                                arg_time = 3, arg_mem = 65536, arg_hashLen = 32\<rparr> of
            Inl e \<Rightarrow> Inl e
          | Inr hash \<Rightarrow> Inr \<lparr>dk_key = hash, dk_salt = salt\<rparr>)
   \<and> (argon2_honours_hashLen lib \<longrightarrow>
        (\<forall>dk. fst (deriveKeyFromPassword lib password salt_arg g) = Inr dk
               \<longrightarrow> length (dk_key dk) = 32))"
  by (cases salt_arg)
     (auto simp add: deriveKeyFromPassword_def randombytes_buf_def SALT_BYTES_def
        KEY_BYTES_def argon2_honours_hashLen_def split: sum.splits)

theorem deriveKey_argon2id_parameters_witness:
  "argon2_honours_hashLen (reference_platform [])
   \<and> \<not> isl (fst (deriveKeyFromPassword (reference_platform []) ''Tr0ub4dor&3'' None
                   (\<lambda>i. of_nat (3 * i))))
   \<and> length (dk_key (projr (fst (deriveKeyFromPassword (reference_platform [])
                   ''Tr0ub4dor&3'' None (\<lambda>i. of_nat (3 * i)))))) = 32"
proof -
  have h1: "argon2_honours_hashLen (reference_platform [])"
    by (rule reference_argon2_honours_hashLen)
  have h2: "\<not> isl (fst (deriveKeyFromPassword (reference_platform []) ''Tr0ub4dor&3'' None
                   (\<lambda>i. of_nat (3 * i))))"
    by (simp add: deriveKeyFromPassword_def reference_platform_def toy_argon2_hash_def
          randombytes_buf_def SALT_BYTES_def)
  then have h3: "fst (deriveKeyFromPassword (reference_platform []) ''Tr0ub4dor&3'' None
                   (\<lambda>i. of_nat (3 * i)))
      = Inr (projr (fst (deriveKeyFromPassword (reference_platform []) ''Tr0ub4dor&3'' None
                   (\<lambda>i. of_nat (3 * i)))))"
    by simp
  show ?thesis
    using h1 h2 h3
      deriveKey_argon2id_parameters [where salt_arg = None and lib = "reference_platform []"
        and password = "''Tr0ub4dor&3''" and g = "\<lambda>i. of_nat (3 * i)"]
    by blast
qed

subsection \<open>Failures of decryptData\<close>

text \<open>
  Whatever the library throws while opening or decoding, \<^verbatim>\<open>decryptData\<close> throws
  the same error, and it fails exactly when the library does. Whether the
  library fails on an envelope that was tampered with is a matter of the cipher,
  not of this code.
\<close>

lemma decryptData_failure_is_uniform:
  "decryptData lib ciphertext nonce key = Inl e \<Longrightarrow> e = decryption_failed"
  by (auto simp add: decryptData_def split: sum.splits)

lemma decryptData_fails_when_open_fails:
  "crypto_secretbox_open_easy lib ciphertext nonce key = Inl e \<Longrightarrow>
   decryptData lib ciphertext nonce key = Inl decryption_failed"
  by (simp add: decryptData_def)

subsection \<open>The vault service\<close>

lemma get_prop_not_nullish: "\<not> nullish v \<Longrightarrow> get_prop v name = Inr (prop_of v name)"
  by (cases v) (simp_all add: prop_of_def)


lemma map_of_set_prop:
  "map_of (set_prop name v props) = (map_of props)(name \<mapsto> v)"
  by (simp add: set_prop_def update_conv')

lemma sample_decrypts:
  "decryptVaultEntry sample_platform sample_encrypted_entry sample_key
     = Inr (Obj [(''id'', Str ''42''), (''name'', Str ''Gmail''), (''favorite'', Bool True),
                 (''createdAt'', Str ''2024-01-01T00:00:00.000Z''),
                 (''updatedAt'', Str ''2024-02-02T00:00:00.000Z'')])"
  by code_simp

text \<open>
  Claim C10. When \<^verbatim>\<open>decryptVaultEntry\<close> returns, the data of the entry were a
  string that deserialized, the ciphertext opened under the key and the
  plaintext parsed; the result is an object whose \<^verbatim>\<open>id\<close>, \<^verbatim>\<open>createdAt\<close> and
  \<^verbatim>\<open>updatedAt\<close> are those of the encrypted entry, whatever the plaintext held
  under these names, and whose every other property is that of the parsed
  plaintext.
\<close>

theorem decryptVaultEntry_wrapper_fields:
  assumes "decryptVaultEntry lib encryptedEntry key = Inr v"
  shows "\<exists>serialized env decryptedJson entry props.
           get_prop encryptedEntry ''encryptedData'' = Inr (Str serialized)
         \<and> deserializeEncryptedData lib serialized = Inr env
         \<and> decryptData lib (env_ciphertext env) (env_nonce env) key = Inr decryptedJson
         \<and> JSON_parse lib decryptedJson = Inr entry
         \<and> v = Obj props
         \<and> get_prop v ''id'' = get_prop encryptedEntry ''id''
         \<and> get_prop v ''createdAt'' = get_prop encryptedEntry ''createdAt''
         \<and> get_prop v ''updatedAt'' = get_prop encryptedEntry ''updatedAt''
         \<and> (\<forall>name. name \<notin> {''id'', ''createdAt'', ''updatedAt''} \<longrightarrow>
               map_of props name = map_of (own_props entry) name)"
proof -
  from assms obtain w where attempt: "decryptVaultEntry_try lib encryptedEntry key = Inr w" and "w = v"
    by (auto simp add: decryptVaultEntry_def split: sum.splits)
  from attempt obtain encryptedData env decryptedJson entry entry_id createdAt updatedAt where
    s1: "get_prop encryptedEntry ''encryptedData'' = Inr encryptedData" and
    s2: "deserialize_value lib encryptedData = Inr env" and
    s3: "decryptData lib (env_ciphertext env) (env_nonce env) key = Inr decryptedJson" and
    s4: "JSON_parse lib decryptedJson = Inr entry" and
    s5: "get_prop encryptedEntry ''id'' = Inr entry_id" and
    s6: "get_prop encryptedEntry ''createdAt'' = Inr createdAt" and
    s7: "get_prop encryptedEntry ''updatedAt'' = Inr updatedAt" and
    s8: "w = Obj (set_prop ''updatedAt'' updatedAt
                (set_prop ''createdAt'' createdAt
                (set_prop ''id'' entry_id (own_props entry))))"
    by (auto simp add: decryptVaultEntry_try_def and_then_def split: sum.splits)
  from s2 obtain serialized where
    s2a: "encryptedData = Str serialized" and
    s2b: "deserializeEncryptedData lib serialized = Inr env"
    by (auto simp add: deserialize_value_def split: jsval.splits)
  show ?thesis
    using s1 s2a s2b s3 s4 s5 s6 s7 s8 \<open>w = v\<close>
    by (auto simp add: map_of_set_prop)
qed

theorem decryptVaultEntry_wrapper_fields_witness:
  "decryptVaultEntry sample_platform sample_encrypted_entry sample_key
     = Inr (Obj [(''id'', Str ''42''), (''name'', Str ''Gmail''), (''favorite'', Bool True),
                 (''createdAt'', Str ''2024-01-01T00:00:00.000Z''),
                 (''updatedAt'', Str ''2024-02-02T00:00:00.000Z'')])
   \<and> JSON_parse sample_platform sample_document
       = Inr (Obj [(''id'', Str ''inner''), (''name'', Str ''Gmail''), (''favorite'', Bool True)])
   \<and> get_prop (Obj [(''id'', Str ''42''), (''name'', Str ''Gmail''), (''favorite'', Bool True),
                 (''createdAt'', Str ''2024-01-01T00:00:00.000Z''),
                 (''updatedAt'', Str ''2024-02-02T00:00:00.000Z'')]) ''id''
       = get_prop sample_encrypted_entry ''id''"
proof -
  have p: "JSON_parse sample_platform sample_document
       = Inr (Obj [(''id'', Str ''inner''), (''name'', Str ''Gmail''), (''favorite'', Bool True)])"
    by code_simp
  show ?thesis
    using sample_decrypts p decryptVaultEntry_wrapper_fields [OF sample_decrypts] by blast
qed

lemma import_entry_result:
  assumes "\<not> nullish e"
  shows "\<exists>r clk'. import_entry lib key e clk = (Inr r, clk')
           \<and> (case decryptVaultEntry lib e key of
                 Inr v \<Rightarrow> r = v
               | Inl err \<Rightarrow>
                   (\<exists>created updated.
                      r = Obj [(''id'', if truthy (prop_of e ''id'') then prop_of e ''id''
                                        else Str ''unknown''),
                               (''name'', Str (lock_sign @ '' Encrypted Import Entry'')),
                               (''favorite'', Bool False),
                               (''createdAt'', created),
                               (''updatedAt'', updated)]))"
  using assms
  by (auto simp add: import_entry_def get_prop_not_nullish and_then_def or_now_def
        now_ISOString_def Let_def split: sum.splits prod.splits)

lemma import_entries_result:
  assumes "\<forall>e \<in> set entries. \<not> nullish e"
  shows "\<exists>results clk'. import_entries lib key entries clk = (Inr results, clk')
           \<and> list_all2 (\<lambda>e r. case decryptVaultEntry lib e key of
                 Inr v \<Rightarrow> r = v
               | Inl err \<Rightarrow>
                   (\<exists>created updated.
                      r = Obj [(''id'', if truthy (prop_of e ''id'') then prop_of e ''id''
                                        else Str ''unknown''),
                               (''name'', Str (lock_sign @ '' Encrypted Import Entry'')),
                               (''favorite'', Bool False),
                               (''createdAt'', created),
                               (''updatedAt'', updated)])) entries results"
  using assms
proof (induction entries arbitrary: clk)
  case Nil
  then show ?case by simp
next
  case (Cons e rest)
  from Cons.prems have "\<not> nullish e" and rest: "\<forall>x \<in> set rest. \<not> nullish x"
    by simp_all
  from import_entry_result [OF \<open>\<not> nullish e\<close>, of lib key clk]
  obtain r clk1 where
    e1: "import_entry lib key e clk = (Inr r, clk1)" and
    e2: "case decryptVaultEntry lib e key of
                 Inr v \<Rightarrow> r = v
               | Inl err \<Rightarrow>
                   (\<exists>created updated.
                      r = Obj [(''id'', if truthy (prop_of e ''id'') then prop_of e ''id''
                                        else Str ''unknown''),
                               (''name'', Str (lock_sign @ '' Encrypted Import Entry'')),
                               (''favorite'', Bool False),
                               (''createdAt'', created),
                               (''updatedAt'', updated)])"
    by blast
  from Cons.IH [OF rest, of clk1] obtain results clk2 where
    r1: "import_entries lib key rest clk1 = (Inr results, clk2)" and
    r2: "list_all2 (\<lambda>e r. case decryptVaultEntry lib e key of
                 Inr v \<Rightarrow> r = v
               | Inl err \<Rightarrow>
                   (\<exists>created updated.
                      r = Obj [(''id'', if truthy (prop_of e ''id'') then prop_of e ''id''
                                        else Str ''unknown''),
                               (''name'', Str (lock_sign @ '' Encrypted Import Entry'')),
                               (''favorite'', Bool False),
                               (''createdAt'', created),
                               (''updatedAt'', updated)])) rest results"
    by blast
  have "import_entries lib key (e # rest) clk = (Inr (r # results), clk2)"
    using e1 r1 by simp
  with e2 r2 show ?case by simp
qed

lemma map_throwing_all_return:
  "\<forall>x \<in> set xs. f x = Inr (g x) \<Longrightarrow> map_throwing f xs = Inr (map g xs)"
  by (induction xs) simp_all

lemma list_entry_result:
  assumes "\<not> nullish e"
  shows "list_entry lib key e =
           Inr (case decryptVaultEntry lib
                       (Obj [(''id'', prop_of e ''id''),
                             (''encryptedData'', prop_of e ''encryptedData''),
                             (''createdAt'', prop_of e ''createdAt''),
                             (''updatedAt'', prop_of e ''updatedAt'')]) key of
                  Inr v \<Rightarrow> v
                | Inl err \<Rightarrow>
                    Obj [(''id'', prop_of e ''id''),
                         (''name'', Str (lock_sign @ '' Encrypted Entry'')),
                         (''favorite'', Bool False),
                         (''createdAt'', prop_of e ''createdAt''),
                         (''updatedAt'', prop_of e ''updatedAt'')])"
  using assms
  by (simp add: list_entry_def get_prop_not_nullish and_then_def split: sum.splits)

text \<open>
  Where every element of the array of entries is a value with properties, that
  is, not \<^verbatim>\<open>null\<close>, a failure to decrypt one entry is isolated. \<^verbatim>\<open>importVault\<close>
  on an archive of the export format returns a list with one element for each
  entry, in order: the decrypted entry where \<^verbatim>\<open>decryptVaultEntry\<close> returns, and
  where it throws a placeholder with the id of the entry (or \<^verbatim>\<open>unknown\<close>), the
  name of a locked entry and \<^verbatim>\<open>favorite\<close> false. And \<^verbatim>\<open>getVaultEntries\<close> on a
  response without error returns, for each fetched entry in order, the decrypted
  entry or its placeholder.
\<close>

lemma bulk_operations_isolate_failures:
  assumes "\<forall>e \<in> set entries. \<not> nullish e"
  shows "(JSON_parse lib jsonData = Inr importData
          \<and> get_prop importData ''format'' = Inr (Str ''falconpass-export'')
          \<and> get_prop importData ''entries'' = Inr (Arr entries)
          \<longrightarrow> (\<exists>results. fst (importVault lib jsonData key clk) = Inr results
                 \<and> length results = length entries
                 \<and> list_all2 (\<lambda>e r. case decryptVaultEntry lib e key of
                        Inr v \<Rightarrow> r = v
                      | Inl err \<Rightarrow>
                          (\<exists>created updated.
                             r = Obj [(''id'', if truthy (prop_of e ''id'') then prop_of e ''id''
                                               else Str ''unknown''),
                                      (''name'', Str (lock_sign @ '' Encrypted Import Entry'')),
                                      (''favorite'', Bool False),
                                      (''createdAt'', created),
                                      (''updatedAt'', updated)])) entries results))
       \<and> (\<not> truthy (response_error response) \<and> response_data response = Arr entries
          \<longrightarrow> length (getVaultEntries lib (Inr response) key) = length entries
            \<and> getVaultEntries lib (Inr response) key =
                map (\<lambda>e. case decryptVaultEntry lib
                             (Obj [(''id'', prop_of e ''id''),
                                   (''encryptedData'', prop_of e ''encryptedData''),
                                   (''createdAt'', prop_of e ''createdAt''),
                                   (''updatedAt'', prop_of e ''updatedAt'')]) key of
                        Inr v \<Rightarrow> v
                      | Inl err \<Rightarrow>
                          Obj [(''id'', prop_of e ''id''),
                               (''name'', Str (lock_sign @ '' Encrypted Entry'')),
                               (''favorite'', Bool False),
                               (''createdAt'', prop_of e ''createdAt''),
                               (''updatedAt'', prop_of e ''updatedAt'')]) entries)"
proof (intro conjI impI)
  assume a: "JSON_parse lib jsonData = Inr importData
          \<and> get_prop importData ''format'' = Inr (Str ''falconpass-export'')
          \<and> get_prop importData ''entries'' = Inr (Arr entries)"
  from import_entries_result [OF assms, of lib key clk] obtain results clk' where
    r1: "import_entries lib key entries clk = (Inr results, clk')" and
    r2: "list_all2 (\<lambda>e r. case decryptVaultEntry lib e key of
                        Inr v \<Rightarrow> r = v
                      | Inl err \<Rightarrow>
                          (\<exists>created updated.
                             r = Obj [(''id'', if truthy (prop_of e ''id'') then prop_of e ''id''
                                               else Str ''unknown''),
                                      (''name'', Str (lock_sign @ '' Encrypted Import Entry'')),
                                      (''favorite'', Bool False),
                                      (''createdAt'', created),
                                      (''updatedAt'', updated)])) entries results"
    by blast
  have "fst (importVault lib jsonData key clk) = Inr results"
    using a r1 by (simp add: importVault_def importVault_try_def)
  moreover have "length results = length entries"
    using r2 by (simp add: list_all2_lengthD)
  ultimately show "\<exists>results. fst (importVault lib jsonData key clk) = Inr results
                 \<and> length results = length entries
                 \<and> list_all2 (\<lambda>e r. case decryptVaultEntry lib e key of
                        Inr v \<Rightarrow> r = v
                      | Inl err \<Rightarrow>
                          (\<exists>created updated.
                             r = Obj [(''id'', if truthy (prop_of e ''id'') then prop_of e ''id''
                                               else Str ''unknown''),
                                      (''name'', Str (lock_sign @ '' Encrypted Import Entry'')),
                                      (''favorite'', Bool False),
                                      (''createdAt'', created),
                                      (''updatedAt'', updated)])) entries results"
    using r2 by blast
next
  assume b: "\<not> truthy (response_error response) \<and> response_data response = Arr entries"
  have m: "map_throwing (list_entry lib key) entries =
        Inr (map (\<lambda>e. case decryptVaultEntry lib
                             (Obj [(''id'', prop_of e ''id''),
                                   (''encryptedData'', prop_of e ''encryptedData''),
                                   (''createdAt'', prop_of e ''createdAt''),
                                   (''updatedAt'', prop_of e ''updatedAt'')]) key of
                        Inr v \<Rightarrow> v
                      | Inl err \<Rightarrow>
                          Obj [(''id'', prop_of e ''id''),
                               (''name'', Str (lock_sign @ '' Encrypted Entry'')),
                               (''favorite'', Bool False),
                               (''createdAt'', prop_of e ''createdAt''),
                               (''updatedAt'', prop_of e ''updatedAt'')]) entries)"
    using assms by (intro map_throwing_all_return) (simp add: list_entry_result)
  show g: "getVaultEntries lib (Inr response) key =
                map (\<lambda>e. case decryptVaultEntry lib
                             (Obj [(''id'', prop_of e ''id''),
                                   (''encryptedData'', prop_of e ''encryptedData''),
                                   (''createdAt'', prop_of e ''createdAt''),
                                   (''updatedAt'', prop_of e ''updatedAt'')]) key of
                        Inr v \<Rightarrow> v
                      | Inl err \<Rightarrow>
                          Obj [(''id'', prop_of e ''id''),
                               (''name'', Str (lock_sign @ '' Encrypted Entry'')),
                               (''favorite'', Bool False),
                               (''createdAt'', prop_of e ''createdAt''),
                               (''updatedAt'', prop_of e ''updatedAt'')]) entries"
    using b m by (simp add: getVaultEntries_def and_then_def)
  show "length (getVaultEntries lib (Inr response) key) = length entries"
    unfolding g by simp
qed

lemma bulk_operations_isolate_failures_sample:
  "\<not> nullish sample_encrypted_entry \<and> \<not> nullish damaged_encrypted_entry
   \<and> JSON_parse sample_platform sample_archive_text = Inr sample_archive
   \<and> get_prop sample_archive ''format'' = Inr (Str ''falconpass-export'')
   \<and> get_prop sample_archive ''entries''
       = Inr (Arr [sample_encrypted_entry, damaged_encrypted_entry, sample_encrypted_entry])
   \<and> (\<exists>results.
         fst (importVault sample_platform sample_archive_text sample_key sample_clock)
           = Inr results
       \<and> length results = 3)
   \<and> \<not> truthy Undefined
   \<and> length (getVaultEntries sample_platform
         (Inr \<lparr>response_data =
                  Arr [sample_encrypted_entry, damaged_encrypted_entry, sample_encrypted_entry],
                response_error = Undefined\<rparr>) sample_key) = 3"
proof -
  have h0: "\<forall>e \<in> set [sample_encrypted_entry, damaged_encrypted_entry, sample_encrypted_entry].
        \<not> nullish e"
    by (simp add: sample_encrypted_entry_def damaged_encrypted_entry_def)
  have h1: "JSON_parse sample_platform sample_archive_text = Inr sample_archive"
    by code_simp
  have h2: "get_prop sample_archive ''format'' = Inr (Str ''falconpass-export'')"
    by (simp add: sample_archive_def)
  have h3: "get_prop sample_archive ''entries''
       = Inr (Arr [sample_encrypted_entry, damaged_encrypted_entry, sample_encrypted_entry])"
    by (simp add: sample_archive_def)
  show ?thesis
    using h0 h1 h2 h3
      bulk_operations_isolate_failures [OF h0, of sample_platform sample_archive_text
        sample_archive sample_key sample_clock
        "\<lparr>response_data =
            Arr [sample_encrypted_entry, damaged_encrypted_entry, sample_encrypted_entry],
          response_error = Undefined\<rparr>"]
    by auto
qed

text \<open>
  Claim C9. A failure to decrypt one entry must not abort a bulk operation. The
  code does not keep to this where an element of the array of entries is
  \<^verbatim>\<open>null\<close>: \<^verbatim>\<open>decryptVaultEntry\<close> fails on it, and the \<^verbatim>\<open>catch\<close> block of the
  callback, which is to build the placeholder, throws when it reads the id for
  the log. On the archive and on the reply of the server with the entries
  sample, \<^verbatim>\<open>null\<close>, sample, \<^verbatim>\<open>importVault\<close> throws and \<^verbatim>\<open>getVaultEntries\<close> returns
  the empty list, though two of the three entries decrypt.
\<close>

theorem bulk_operations_lost_on_null_entry:
  "JSON_parse sample_platform null_entry_archive_text
     = Inr (Obj [(''format'', Str ''falconpass-export''),
                 (''entries'', Arr [sample_encrypted_entry, Null, sample_encrypted_entry])])
   \<and> decryptVaultEntry sample_platform Null sample_key
       = Inl (Error ''Failed to decrypt vault entry'')
   \<and> fst (importVault sample_platform null_entry_archive_text sample_key sample_clock)
       = Inl (Error ''Failed to import vault: Invalid format'')
   \<and> getVaultEntries sample_platform (Inr null_entry_response) sample_key = []"
  by code_simp

subsection \<open>The log of the secret boxes opened\<close>

lemma decryptData_logged_erase:
  "fst (decryptData_logged lib ciphertext nonce key log) = decryptData lib ciphertext nonce key"
  by (simp add: decryptData_logged_def decryptData_def Let_def)

lemma decryptData_logged_log:
  "snd (decryptData_logged lib ciphertext nonce key log) = log @ [(ciphertext, nonce, key)]"
  by (simp add: decryptData_logged_def Let_def)

lemma decryptVaultEntry_try_logged_erase:
  "fst (decryptVaultEntry_try_logged lib encryptedEntry key log)
     = decryptVaultEntry_try lib encryptedEntry key"
  using decryptData_logged_erase [of lib _ _ key log]
  by (auto simp add: decryptVaultEntry_try_logged_def decryptVaultEntry_try_def and_then_def
        split_beta split: sum.splits)

lemma decryptVaultEntry_logged_erase:
  "fst (decryptVaultEntry_logged lib encryptedEntry key log)
     = decryptVaultEntry lib encryptedEntry key"
  using decryptVaultEntry_try_logged_erase [of lib encryptedEntry key log]
  by (auto simp add: decryptVaultEntry_logged_def decryptVaultEntry_def
        split: sum.splits prod.splits)

lemma import_entry_logged_erase:
  "import_entry_logged lib key e clk log = (r, clk', log') \<Longrightarrow>
   import_entry lib key e clk = (r, clk')"
  using decryptVaultEntry_logged_erase [of lib e key log]
  by (auto simp add: import_entry_logged_def import_entry_def Let_def
        split: sum.splits prod.splits)

lemma import_entries_logged_erase:
  "import_entries_logged lib key es clk log = (r, clk', log') \<Longrightarrow>
   import_entries lib key es clk = (r, clk')"
proof (induction es arbitrary: clk log r clk' log')
  case Nil
  then show ?case by simp
next
  case (Cons e es)
  obtain r1 clk1 log1 where
    first: "import_entry_logged lib key e clk log = (r1, clk1, log1)"
    by (cases "import_entry_logged lib key e clk log") auto
  note first' = import_entry_logged_erase [OF first]
  show ?case
  proof (cases r1)
    case (Inl err)
    with Cons.prems first first' show ?thesis by simp
  next
    case (Inr entry)
    obtain r2 clk2 log2 where
      others: "import_entries_logged lib key es clk1 log1 = (r2, clk2, log2)"
      by (cases "import_entries_logged lib key es clk1 log1") auto
    note others' = Cons.IH [OF others]
    from Cons.prems first first' others others' Inr show ?thesis
      by (cases r2) auto
  qed
qed

lemma importVault_logged_erase:
  "importVault_logged lib jsonData key clk log = (r, clk', log') \<Longrightarrow>
   importVault lib jsonData key clk = (r, clk')"
  by (auto simp add: importVault_logged_def importVault_def importVault_try_logged_def
        importVault_try_def split: sum.splits prod.splits jsval.splits if_splits
        dest: import_entries_logged_erase)

text \<open>On the sample archive the import opens three secret boxes, one for each entry.\<close>

lemma sample_import_opens_three:
  "length (snd (snd (importVault_logged sample_platform sample_archive_text sample_key
                       sample_clock []))) = 3"
  by code_simp

text \<open>
  Claim C4, amended. The repository has no error classes of its own. On an
  archive that parses and whose \<^verbatim>\<open>format\<close> is not \<^verbatim>\<open>falconpass-export\<close>,
  \<^verbatim>\<open>importVault\<close> throws a plain \<^verbatim>\<open>Error\<close> with the message
  \<^verbatim>\<open>Failed to import vault: Invalid format\<close>, and it does so without attempting
  to decrypt any entry: the log of the secret boxes opened is as it was before
  the call, and the clock has not been read.
\<close>

theorem importVault_rejects_other_formats:
  assumes "JSON_parse lib jsonData = Inr importData"
    and "get_prop importData ''format'' \<noteq> Inr (Str ''falconpass-export'')"
  shows "importVault lib jsonData key clk
           = (Inl (Thrown ''Error'' ''Failed to import vault: Invalid format''), clk)
       \<and> importVault_logged lib jsonData key clk log
           = (Inl (Thrown ''Error'' ''Failed to import vault: Invalid format''), clk, log)"
  using assms
  by (auto simp add: importVault_def importVault_try_def importVault_logged_def
        importVault_try_logged_def split: sum.splits)

theorem importVault_rejects_other_formats_witness:
  "JSON_parse sample_platform foreign_archive_text = Inr foreign_archive
   \<and> get_prop foreign_archive ''format'' \<noteq> Inr (Str ''falconpass-export'')
   \<and> importVault sample_platform foreign_archive_text sample_key sample_clock
       = (Inl (Thrown ''Error'' ''Failed to import vault: Invalid format''), sample_clock)
   \<and> importVault_logged sample_platform foreign_archive_text sample_key sample_clock []
       = (Inl (Thrown ''Error'' ''Failed to import vault: Invalid format''), sample_clock, [])"
proof -
  have h1: "JSON_parse sample_platform foreign_archive_text = Inr foreign_archive"
    by code_simp
  have h2: "get_prop foreign_archive ''format'' \<noteq> Inr (Str ''falconpass-export'')"
    by (simp add: foreign_archive_def)
  show ?thesis
    using h1 h2
      importVault_rejects_other_formats [OF h1 h2, where key = sample_key
        and clk = sample_clock and log = "[]"]
    by blast
qed

text \<open>
  The claim as the specification words it asks for an error of a class of its
  own. What is thrown on the archive with the format \<^verbatim>\<open>not-falconpass\<close> is of the
  class \<^verbatim>\<open>Error\<close>, and is the very value thrown on a text that is not JSON at all.
\<close>

theorem importVault_error_class_counterexample:
  "fst (importVault sample_platform foreign_archive_text sample_key sample_clock)
     = Inl (Thrown ''Error'' ''Failed to import vault: Invalid format'')
   \<and> fst (importVault sample_platform ''not json'' sample_key sample_clock)
     = Inl (Thrown ''Error'' ''Failed to import vault: Invalid format'')"
  by code_simp

end
